theory Spec2Isabelle
  imports Main "HOL-Library.Log_Nat"
begin

section \<open>JavaScript strings\<close>

text \<open>
  The templates route on the text of model replies with two built-in string methods,
  \<^verbatim>\<open>String.prototype.toLowerCase\<close> and \<^verbatim>\<open>String.prototype.includes\<close>.
  A JavaScript string is a sequence of UTF-16 code units; a \<^typ>\<open>char\<close> here stands for a
  code unit in the range U+0000 to U+00FF, where lower-casing moves the ASCII capitals and
  the Latin-1 capitals (U+00C0 to U+00DE without the multiplication sign U+00D7) up by 32
  and leaves every other code unit alone.
\<close>

definition toLowerCase_char :: "char \<Rightarrow> char" where
  "toLowerCase_char c =
     (let n = (of_char c :: nat)
      in if (65 \<le> n \<and> n \<le> 90) \<or> (192 \<le> n \<and> n \<le> 222 \<and> n \<noteq> 215)
         then char_of (n + 32) else c)"

definition toLowerCase :: "string \<Rightarrow> string" where
  "toLowerCase s = map toLowerCase_char s"

fun startsWith :: "string \<Rightarrow> string \<Rightarrow> bool" where
  "startsWith s [] = True"
| "startsWith [] (p # ps) = False"
| "startsWith (c # cs) (p # ps) = (c = p \<and> startsWith cs ps)"

text \<open>\<^verbatim>\<open>s.includes(sub)\<close>: \<open>sub\<close> occurs in \<open>s\<close> at some position.\<close>

fun includes_js :: "string \<Rightarrow> string \<Rightarrow> bool" where
  "includes_js [] sub = (sub = [])"
| "includes_js (c # cs) sub = (startsWith (c # cs) sub \<or> includes_js cs sub)"

section \<open>JavaScript numbers\<close>

text \<open>
  A JavaScript number is an IEEE 754 binary64 value: not-a-number, an infinity, or a
  finite value, which is a rational. The two zeros are one value here: the templates add
  and compare numbers, and neither tells the zeros apart. A sum is the exact sum rounded
  to the nearest value that binary64 has, a tie going to the even significand: the unit in
  the last place of a value with binary exponent \<open>e\<close> is \<open>2\<close> to the \<open>e - 52\<close>, the exponent
  is at least -1022 (below it the values are subnormal), and a rounded magnitude of \<open>2\<close> to
  the 1024 or more is an infinity.
\<close>

datatype number = NaN | NegInfinity | Finite rat | PosInfinity

definition pow2 :: "int \<Rightarrow> rat" where
  "pow2 k = (if 0 \<le> k then 2 ^ nat k else 1 / 2 ^ nat (- k))"

text \<open>For \<open>a > 0\<close>, the integer \<open>e\<close> with \<open>pow2 e \<le> a < pow2 (e + 1)\<close>.\<close>

definition floor_log2 :: "rat \<Rightarrow> int" where
  "floor_log2 a = (if 1 \<le> a then bitlen \<lfloor>a\<rfloor> - 1 else - bitlen (\<lceil>1 / a\<rceil> - 1))"

definition round_half_even :: "rat \<Rightarrow> int" where
  "round_half_even q =
     (let f = \<lfloor>q\<rfloor>; d = q - of_int f
      in if d < 1 / 2 then f
         else if 1 / 2 < d then f + 1
         else if even f then f else f + 1)"

definition round_binary64 :: "rat \<Rightarrow> number" where
  "round_binary64 x =
     (if x = 0 then Finite 0
      else let a = \<bar>x\<bar>;
               e = max (floor_log2 a) (- 1022);
               ulp = pow2 (e - 52);
               r = of_int (round_half_even (a / ulp)) * ulp
           in if pow2 1024 \<le> r then (if x < 0 then NegInfinity else PosInfinity)
              else Finite (if x < 0 then - r else r))"

text \<open>\<^verbatim>\<open>x + y\<close>.\<close>

fun js_add :: "number \<Rightarrow> number \<Rightarrow> number" where
  "js_add NaN y = NaN"
| "js_add x NaN = NaN"
| "js_add PosInfinity NegInfinity = NaN"
| "js_add NegInfinity PosInfinity = NaN"
| "js_add PosInfinity y = PosInfinity"
| "js_add x PosInfinity = PosInfinity"
| "js_add NegInfinity y = NegInfinity"
| "js_add x NegInfinity = NegInfinity"
| "js_add (Finite x) (Finite y) = round_binary64 (x + y)"

text \<open>\<^verbatim>\<open>x < y\<close> and \<^verbatim>\<open>x >= y\<close>: both are false when an operand is not-a-number.\<close>

fun js_lt :: "number \<Rightarrow> number \<Rightarrow> bool" where
  "js_lt NaN y = False"
| "js_lt x NaN = False"
| "js_lt PosInfinity y = False"
| "js_lt x NegInfinity = False"
| "js_lt NegInfinity y = True"
| "js_lt (Finite x) PosInfinity = True"
| "js_lt (Finite x) (Finite y) = (x < y)"

fun js_ge :: "number \<Rightarrow> number \<Rightarrow> bool" where
  "js_ge NaN y = False"
| "js_ge x NaN = False"
| "js_ge x y = (\<not> js_lt x y)"

section \<open>Messages\<close>

text \<open>
  The message classes of \<^verbatim>\<open>@langchain/core/messages\<close> as the templates use them. A
  tool call carries the tool's name, its arguments (a JSON object) and an optional id;
  an \<^verbatim>\<open>AIMessage\<close> has an optional \<^verbatim>\<open>tool_calls\<close> array; a \<^verbatim>\<open>ToolMessage\<close> has
  its content and the \<^verbatim>\<open>tool_call_id\<close> it answers.
\<close>

datatype json =
    JString string
  | JNumber int
  | JBool bool
  | JNull
  | JArray "json list"
  | JObject "(string \<times> json) list"

record ToolCall =
  name :: string
  args :: "(string \<times> json) list"
  id_call :: "string option"

datatype message =
    HumanMessage string
  | SystemMessage string
  | AIMessage string "ToolCall list option"
  | ToolMessage string "string option"

text \<open>\<^verbatim>\<open>MessagesAnnotation.spec\<close>: the one channel \<^verbatim>\<open>messages\<close>.\<close>

record MessagesState =
  messages :: "message list"

text \<open>\<^verbatim>\<open>state.messages.at(-1)\<close>: the last element, \<^verbatim>\<open>undefined\<close> on an empty array.\<close>

definition at_last :: "'a list \<Rightarrow> 'a option" where
  "at_last xs = (if xs = [] then None else Some (last xs))"

section \<open>Graph construction\<close>

text \<open>
  \<^verbatim>\<open>new StateGraph(...)\<close> starts an empty builder; \<^verbatim>\<open>addNode\<close>, \<^verbatim>\<open>addEdge\<close> and
  \<^verbatim>\<open>addConditionalEdges\<close> each record one declaration and return the builder. A graph is
  what the chain of calls has recorded, in the order of the calls: node names,
  unconditional edges, and conditional edges (source, routing function, declared
  targets). \<^verbatim>\<open>START\<close> and \<^verbatim>\<open>END\<close> are the framework's reserved node names.
  A chain \<^verbatim>\<open>new StateGraph(...).addNode(...).addEdge(...)\<close> is written here as nested
  applications, the first call innermost.
\<close>

record 's StateGraph =
  nodes :: "string list"
  edges :: "(string \<times> string) list"
  branches :: "(string \<times> ('s \<Rightarrow> string) \<times> string list) list"

definition START :: string where
  "START = ''__start__''"

definition END :: string where
  "END = ''__end__''"

definition new_StateGraph :: "'s StateGraph" where
  "new_StateGraph = \<lparr>nodes = [], edges = [], branches = []\<rparr>"

definition addNode :: "string \<Rightarrow> 's StateGraph \<Rightarrow> 's StateGraph" where
  "addNode n g = g\<lparr>nodes := nodes g @ [n]\<rparr>"

definition addEdge :: "string \<Rightarrow> string \<Rightarrow> 's StateGraph \<Rightarrow> 's StateGraph" where
  "addEdge a b g = g\<lparr>edges := edges g @ [(a, b)]\<rparr>"

definition addConditionalEdges ::
  "string \<Rightarrow> ('s \<Rightarrow> string) \<Rightarrow> string list \<Rightarrow> 's StateGraph \<Rightarrow> 's StateGraph" where
  "addConditionalEdges a f ts g = g\<lparr>branches := branches g @ [(a, f, ts)]\<rparr>"

text \<open>What a graph declares: where the unconditional edges out of a node go, which nodes
  have an unconditional edge into a node, and each conditional edge's source and targets.\<close>

definition edges_from :: "'s StateGraph \<Rightarrow> string \<Rightarrow> string list" where
  "edges_from g a = map snd (filter (\<lambda>e. fst e = a) (edges g))"

definition edges_to :: "'s StateGraph \<Rightarrow> string \<Rightarrow> string list" where
  "edges_to g b = map fst (filter (\<lambda>e. snd e = b) (edges g))"

definition conditional_targets :: "'s StateGraph \<Rightarrow> (string \<times> string list) list" where
  "conditional_targets g = map (\<lambda>b. (fst b, snd (snd b))) (branches g)"

section \<open>The basic agent template\<close>

text \<open>The template's state is \<^verbatim>\<open>MessagesAnnotation.spec\<close> with no further field.\<close>

type_synonym AgentStateType = MessagesState

subsection \<open>Routing\<close>

text \<open>
  \<^verbatim>\<open>shouldContinue\<close>: \<^verbatim>\<open>END\<close> when there is no last message or it is not an
  \<^verbatim>\<open>AIMessage\<close>; \<^verbatim>\<open>"tools"\<close> when \<^verbatim>\<open>lastMessage.tool_calls?.length\<close> is truthy, that
  is when \<^verbatim>\<open>tool_calls\<close> is defined and its length is not zero; \<^verbatim>\<open>END\<close> otherwise.
\<close>

definition shouldContinue :: "AgentStateType \<Rightarrow> string" where
  "shouldContinue state =
     (case at_last (messages state) of
        None \<Rightarrow> END
      | Some (AIMessage content tool_calls) \<Rightarrow>
          (case tool_calls of
             None \<Rightarrow> END
           | Some calls \<Rightarrow> if length calls \<noteq> 0 then ''tools'' else END)
      | Some _ \<Rightarrow> END)"

subsection \<open>The graph\<close>

definition workflow_basic :: "AgentStateType StateGraph" where
  "workflow_basic =
     (addEdge ''tools'' ''agent''
     (addConditionalEdges ''agent'' shouldContinue [''tools'', END]
     (addEdge START ''agent''
     (addNode ''tools''
     (addNode ''agent'' new_StateGraph)))))"

subsection \<open>Tools\<close>

text \<open>
  A tool is an object with a \<^verbatim>\<open>name\<close> and an asynchronous \<^verbatim>\<open>invoke\<close>. Awaiting
  \<^verbatim>\<open>tool.invoke(toolCall)\<close> either yields the tool's answer, which the template pushes
  onto a \<^verbatim>\<open>ToolMessage[]\<close>, or throws. What is thrown is either an \<^verbatim>\<open>Error\<close> instance
  with its \<^verbatim>\<open>message\<close>, or some other value.
\<close>

datatype thrown = ErrorInstance string | NonError

datatype 'a completion = Returns 'a | Throws thrown

record StructuredTool =
  tool_name :: string
  invoke :: "ToolCall \<Rightarrow> message completion"

text \<open>
  \<^verbatim>\<open>exampleTool\<close>, for a tool call as the reply of a chat model carries it, with its
  type tag and an id: the schema \<^verbatim>\<open>z.object({ query: z.string() })\<close> is checked by the
  framework before the function runs, and a call whose arguments do not fit it is rejected
  with an \<^verbatim>\<open>Error\<close>; otherwise the function's result \<^verbatim>\<open>`Results for: ${query}`\<close> comes
  back as the content of a \<^verbatim>\<open>ToolMessage\<close> answering the call. What the framework does
  with a call that has no id or no type tag is not modelled; no property below rests on
  what \<^verbatim>\<open>exampleTool\<close> returns.
\<close>

definition exampleTool :: StructuredTool where
  "exampleTool =
     \<lparr>tool_name = ''example_tool'',
      invoke = (\<lambda>toolCall.
        case map_of (args toolCall) ''query'' of
          Some (JString query) \<Rightarrow>
            Returns (ToolMessage (''Results for: '' @ query) (id_call toolCall))
        | _ \<Rightarrow> Throws (ErrorInstance ''Received tool input did not match expected schema''))\<rparr>"

definition tools :: "StructuredTool list" where
  "tools = [exampleTool]"

text \<open>
  \<^verbatim>\<open>toolsByName = Object.fromEntries(tools.map((t) => [t.name, t]))\<close> is an ordinary
  object: its own properties are the tools by name (a later entry of the same name
  replaces an earlier one), and its prototype is \<^verbatim>\<open>Object.prototype\<close>. The property
  read \<^verbatim>\<open>toolsByName[toolCall.name]\<close> walks the prototype chain, so for a name that is
  no own property but a member of \<^verbatim>\<open>Object.prototype\<close> it yields that member (a function,
  or for \<^verbatim>\<open>__proto__\<close> the prototype object itself), which is truthy and has no
  \<^verbatim>\<open>invoke\<close>. For any other name it yields \<^verbatim>\<open>undefined\<close>.
\<close>

definition Object_prototype_keys :: "string list" where
  "Object_prototype_keys =
     [''constructor'', ''__proto__'', ''hasOwnProperty'', ''isPrototypeOf'',
      ''propertyIsEnumerable'', ''toLocaleString'', ''toString'', ''valueOf'',
      ''__defineGetter__'', ''__defineSetter__'', ''__lookupGetter__'',
      ''__lookupSetter__'']"

datatype property = Undefined | Own StructuredTool | Inherited

definition fromEntries :: "(string \<times> 'v) list \<Rightarrow> (string \<rightharpoonup> 'v)" where
  "fromEntries kvs = map_of (rev kvs)"

definition toolsByName :: "StructuredTool list \<Rightarrow> string \<Rightarrow> property" where
  "toolsByName ts key =
     (case fromEntries (map (\<lambda>t. (tool_name t, t)) ts) key of
        Some t \<Rightarrow> Own t
      | None \<Rightarrow> if key \<in> set Object_prototype_keys then Inherited else Undefined)"

text \<open>\<^verbatim>\<open>!tool\<close> is true for \<^verbatim>\<open>undefined\<close> only: tools and inherited members are objects.\<close>

definition truthy :: "property \<Rightarrow> bool" where
  "truthy p = (case p of Undefined \<Rightarrow> False | Own t \<Rightarrow> True | Inherited \<Rightarrow> True)"

text \<open>
  \<^verbatim>\<open>await tool.invoke(toolCall)\<close>. A tool runs its \<^verbatim>\<open>invoke\<close>. An inherited member has no
  \<^verbatim>\<open>invoke\<close>, and calling the missing method throws a \<^verbatim>\<open>TypeError\<close>, which is an
  \<^verbatim>\<open>Error\<close> instance; so does reading \<^verbatim>\<open>invoke\<close> from \<^verbatim>\<open>undefined\<close>. The messages are
  those that V8 gives.
\<close>

definition not_a_function :: thrown where
  "not_a_function = ErrorInstance ''tool.invoke is not a function''"

definition cannot_read :: thrown where
  "cannot_read = ErrorInstance ''Cannot read properties of undefined (reading 'invoke')''"

definition invoke_property :: "property \<Rightarrow> ToolCall \<Rightarrow> message completion" where
  "invoke_property p toolCall =
     (case p of
        Own t \<Rightarrow> invoke t toolCall
      | Inherited \<Rightarrow> Throws not_a_function
      | Undefined \<Rightarrow> Throws cannot_read)"

subsection \<open>The tools node\<close>

text \<open>
  The body of the \<^verbatim>\<open>for\<close> loop of \<^verbatim>\<open>callTools\<close> for one tool call: the message that
  is pushed. When \<^verbatim>\<open>!tool\<close> holds it is \<^verbatim>\<open>Unknown tool: <name>\<close>; otherwise the
  \<^verbatim>\<open>try\<close> block runs: an invocation that returns gives its result, and anything thrown is
  caught and gives \<^verbatim>\<open>Error: <message>\<close>, or \<^verbatim>\<open>Error: Unknown error\<close> when it is not an
  \<^verbatim>\<open>Error\<close>.
\<close>

definition caught :: "thrown \<Rightarrow> ToolCall \<Rightarrow> message" where
  "caught error toolCall =
     ToolMessage (''Error: '' @ (case error of ErrorInstance msg \<Rightarrow> msg
                                 | NonError \<Rightarrow> ''Unknown error''))
       (id_call toolCall)"

definition callTool :: "StructuredTool list \<Rightarrow> ToolCall \<Rightarrow> message" where
  "callTool ts toolCall =
     (let tool = toolsByName ts (name toolCall)
      in if \<not> truthy tool
         then ToolMessage (''Unknown tool: '' @ name toolCall) (id_call toolCall)
         else case invoke_property tool toolCall of
                Returns result \<Rightarrow> result
              | Throws error \<Rightarrow> caught error toolCall)"

text \<open>The loop pushes one message per tool call, in order, onto \<^verbatim>\<open>toolMessages\<close>.\<close>

fun callTools_loop :: "StructuredTool list \<Rightarrow> ToolCall list \<Rightarrow> message list \<Rightarrow> message list" where
  "callTools_loop ts [] toolMessages = toolMessages"
| "callTools_loop ts (toolCall # rest) toolMessages =
     callTools_loop ts rest (toolMessages @ [callTool ts toolCall])"

text \<open>
  \<^verbatim>\<open>callTools\<close> returns a partial state update with the one key \<^verbatim>\<open>messages\<close>. The
  result is a sum, with an exception that escapes the function on the left. No statement
  outside the \<^verbatim>\<open>try\<close> block throws: \<^verbatim>\<open>at(-1)\<close>, the instance test, the property reads
  and the \<^verbatim>\<open>ToolMessage\<close> constructor all return.
\<close>

definition callTools :: "StructuredTool list \<Rightarrow> AgentStateType \<Rightarrow> thrown + MessagesState" where
  "callTools ts state =
     (case at_last (messages state) of
        None \<Rightarrow> Inr \<lparr>messages = []\<rparr>
      | Some (AIMessage content tool_calls) \<Rightarrow>
          Inr \<lparr>messages =
            callTools_loop ts (case tool_calls of None \<Rightarrow> [] | Some calls \<Rightarrow> calls) []\<rparr>
      | Some _ \<Rightarrow> Inr \<lparr>messages = []\<rparr>)"

section \<open>The multi-agent template\<close>

text \<open>
  \<^verbatim>\<open>MultiAgentState\<close>: the messages channel and five more. \<^verbatim>\<open>iterations\<close> is a
  JavaScript number that starts at 0 and to which the supervisor adds 1 on each visit;
  it is modelled as an integer.
\<close>

record MultiAgentState = MessagesState +
  task :: string
  currentAgent :: string
  researchNotes :: "string list"
  draft :: string
  iterations :: int

definition routeFromSupervisor :: "MultiAgentState \<Rightarrow> string" where
  "routeFromSupervisor state =
     (let decision = toLowerCase (currentAgent state)
      in if iterations state > 10 then ''finalize''
         else if includes_js decision ''finish'' then ''finalize''
         else if includes_js decision ''researcher'' then ''researcher''
         else if includes_js decision ''writer'' then ''writer''
         else ''finalize'')"

definition workflow_multi :: "MultiAgentState StateGraph" where
  "workflow_multi =
     (addEdge ''finalize'' END
     (addEdge ''writer'' ''supervisor''
     (addEdge ''researcher'' ''supervisor''
     (addConditionalEdges ''supervisor'' routeFromSupervisor
        [''researcher'', ''writer'', ''finalize'']
     (addEdge START ''supervisor''
     (addNode ''finalize''
     (addNode ''writer''
     (addNode ''researcher''
     (addNode ''supervisor'' new_StateGraph)))))))))"

section \<open>The RAG template\<close>

subsection \<open>State\<close>

record Document =
  pageContent :: string
  metadata :: "(string \<times> json) list"

text \<open>
  \<^verbatim>\<open>RAGState\<close>. \<^verbatim>\<open>query\<close> and \<^verbatim>\<open>generation\<close> keep the last value written; the
  template reads \<^verbatim>\<open>query\<close> only through \<^verbatim>\<open>state.query || ...\<close> and in prompts, so the
  empty string stands for a channel not yet written. \<^verbatim>\<open>retryCount\<close> is a JavaScript number.
\<close>

record RAGState = MessagesState +
  query :: string
  documents :: "Document list"
  generation :: string
  retryCount :: number

text \<open>
  A node returns a partial update: an object with some of the state's keys. It is
  modelled as the list of its key-value pairs. Each channel folds a written value into
  its current one with its reducer: \<^verbatim>\<open>messages\<close> appends, \<^verbatim>\<open>documents\<close> has
  \<^verbatim>\<open>(x, y) => y\<close>, \<^verbatim>\<open>retryCount\<close> has \<^verbatim>\<open>(x, y) => x + y\<close>, the other two replace.
\<close>

datatype RAGWrite =
    W_messages "message list"
  | W_query string
  | W_documents "Document list"
  | W_generation string
  | W_retryCount number

fun reduce :: "RAGState \<Rightarrow> RAGWrite \<Rightarrow> RAGState" where
  "reduce s (W_messages y) = s\<lparr>messages := messages s @ y\<rparr>"
| "reduce s (W_query y) = s\<lparr>query := y\<rparr>"
| "reduce s (W_documents y) = s\<lparr>documents := y\<rparr>"
| "reduce s (W_generation y) = s\<lparr>generation := y\<rparr>"
| "reduce s (W_retryCount y) = s\<lparr>retryCount := js_add (retryCount s) y\<rparr>"

definition apply_update :: "RAGState \<Rightarrow> RAGWrite list \<Rightarrow> RAGState" where
  "apply_update s update = foldl reduce s update"

text \<open>The channels' \<^verbatim>\<open>default\<close> values.\<close>

definition default_RAGState :: RAGState where
  "default_RAGState =
     \<lparr>messages = [], query = [], documents = [], generation = [], retryCount = Finite 0\<rparr>"

subsection \<open>The chat model\<close>

text \<open>
  \<^verbatim>\<open>model.invoke(messages)\<close> is a call to a language model outside the program. A run
  sees a reply that may depend on the prompt and on how many calls came before it, so the
  model is a parameter: from the number of earlier calls and the prompt to
  \<^verbatim>\<open>response.content.toString()\<close>. A node takes the number of calls made so far and
  returns it with its update. \<^verbatim>\<open>new AIMessage(text)\<close> has an empty \<^verbatim>\<open>tool_calls\<close> array.
\<close>

type_synonym ChatModel = "nat \<Rightarrow> message list \<Rightarrow> string"

type_synonym RAGNode = "ChatModel \<Rightarrow> nat \<Rightarrow> RAGState \<Rightarrow> RAGWrite list \<times> nat"

definition LF :: string where
  "LF = [CHR 0x0A]"

fun content :: "message \<Rightarrow> string" where
  "content (HumanMessage c) = c"
| "content (SystemMessage c) = c"
| "content (AIMessage c tool_calls) = c"
| "content (ToolMessage c tool_call_id) = c"

fun join :: "string \<Rightarrow> string list \<Rightarrow> string" where
  "join sep [] = []"
| "join sep [x] = x"
| "join sep (x # y # rest) = x @ sep @ join sep (y # rest)"

subsection \<open>Nodes\<close>

definition retrieveDocuments :: "string \<Rightarrow> Document list" where
  "retrieveDocuments q =
     [\<lparr>pageContent = ''This is a placeholder document about: '' @ q,
       metadata = [(''source'', JString ''example.txt'')]\<rparr>]"

text \<open>\<^verbatim>\<open>state.query || state.messages.at(-1)?.content?.toString() || ""\<close>.\<close>

definition retrieve :: RAGNode where
  "retrieve model n state =
     (let q = (if query state \<noteq> [] then query state
               else case at_last (messages state) of
                      None \<Rightarrow> []
                    | Some m \<Rightarrow> content m)
      in ([W_documents (retrieveDocuments q), W_query q], n))"

definition gradePrompt :: string where
  "gradePrompt =
     ''You are a grader assessing relevance of a document to a user question.'' @ LF @
     ''If the document contains keywords or meaning related to the question, grade it as relevant.'' @ LF @
     ''Give a binary score 'yes' or 'no' to indicate relevance.''"

fun grade_loop ::
  "ChatModel \<Rightarrow> string \<Rightarrow> Document list \<Rightarrow> nat \<Rightarrow> Document list \<Rightarrow> Document list \<times> nat" where
  "grade_loop model q [] n relevantDocs = (relevantDocs, n)"
| "grade_loop model q (doc # rest) n relevantDocs =
     (let response = model n
            [SystemMessage gradePrompt,
             HumanMessage (''Document: '' @ pageContent doc @ LF @ LF @
                           ''Question: '' @ q @ LF @ LF @ ''Relevant (yes/no)?'')];
          grade = toLowerCase response
      in grade_loop model q rest (Suc n)
           (if includes_js grade ''yes'' then relevantDocs @ [doc] else relevantDocs))"

definition gradeDocuments :: RAGNode where
  "gradeDocuments model n state =
     (let (relevantDocs, n') = grade_loop model (query state) (documents state) n []
      in ([W_documents relevantDocs], n'))"

definition generate :: RAGNode where
  "generate model n state =
     (let context = join (LF @ LF) (map pageContent (documents state));
          response = model n
            [SystemMessage
               (''You are an assistant answering questions based on provided context.'' @ LF @
                ''Use only the context to answer. If the context doesn't contain the answer, say so.''),
             HumanMessage (''Context:'' @ LF @ context @ LF @ LF @ ''Question: '' @ query state)]
      in ([W_generation response, W_messages [AIMessage response (Some [])]], Suc n))"

definition rewriteQuery :: RAGNode where
  "rewriteQuery model n state =
     (let response = model n
            [SystemMessage
               (''You are a query rewriter. Given a question that didn't return relevant documents,'' @ LF @
                ''rewrite it to be more specific or use different terms. Return only the rewritten question.''),
             HumanMessage (''Original question: '' @ query state)]
      in ([W_query response, W_retryCount (Finite 1)], Suc n))"

subsection \<open>Routing and the graph\<close>

definition routeAfterGrade :: "RAGState \<Rightarrow> string" where
  "routeAfterGrade state =
     (if length (documents state) > 0 then ''generate''
      else if js_ge (retryCount state) (Finite 2) then ''generate''
      else ''rewrite'')"

definition workflow_rag :: "RAGState StateGraph" where
  "workflow_rag =
     (addEdge ''generate'' END
     (addEdge ''rewrite'' ''retrieve''
     (addConditionalEdges ''grade'' routeAfterGrade [''generate'', ''rewrite'']
     (addEdge ''retrieve'' ''grade''
     (addEdge START ''retrieve''
     (addNode ''rewrite''
     (addNode ''generate''
     (addNode ''grade''
     (addNode ''retrieve'' new_StateGraph)))))))))"

text \<open>The functions that the \<^verbatim>\<open>addNode\<close> calls bind to the node names.\<close>

definition rag_node :: "string \<Rightarrow> RAGNode option" where
  "rag_node a =
     (if a = ''retrieve'' then Some retrieve
      else if a = ''grade'' then Some gradeDocuments
      else if a = ''generate'' then Some generate
      else if a = ''rewrite'' then Some rewriteQuery
      else None)"

subsection \<open>Running the graph\<close>

text \<open>
  The framework runs a compiled graph in steps. In these templates one node is active
  at a time: the active node runs on the current state, its update is folded into the
  state by the reducers, and the next node is the target of the node's unconditional
  edge or, for a node with a conditional edge, the value of its routing function on the
  updated state. The run ends when \<^verbatim>\<open>END\<close> is reached. \<open>next_node\<close> is \<open>None\<close> for a node
  with no outgoing edge.
\<close>

definition next_node :: "'s StateGraph \<Rightarrow> 's \<Rightarrow> string \<Rightarrow> string option" where
  "next_node g s a =
     (case edges_from g a of
        b # _ \<Rightarrow> Some b
      | [] \<Rightarrow>
          (case filter (\<lambda>b. fst b = a) (branches g) of
             b # _ \<Rightarrow> Some (fst (snd b) s)
           | [] \<Rightarrow> None))"

text \<open>
  The framework bounds the number of steps of one run by the recursion limit of the call,
  25 when the call configures none, as in the template; a run that has not reached
  \<^verbatim>\<open>END\<close> within the limit is stopped with a \<^verbatim>\<open>GraphRecursionError\<close>.
\<close>

datatype graph_error = GraphRecursionError | UnknownNode

definition default_recursionLimit :: nat where
  "default_recursionLimit = 25"

text \<open>
  A run from an active node, with the number of steps left, the number of model calls
  made and the state; one step per node that runs. It returns the final state and the
  nodes that ran, in order, or the error that stops it. A node with no outgoing edge ends
  the run.
\<close>

fun run_rag ::
  "ChatModel \<Rightarrow> nat \<Rightarrow> string \<Rightarrow> nat \<Rightarrow> RAGState \<Rightarrow> string list \<Rightarrow>
   graph_error + (RAGState \<times> string list)" where
  "run_rag model 0 a n s visited =
     (if a = END then Inr (s, visited) else Inl GraphRecursionError)"
| "run_rag model (Suc steps) a n s visited =
     (if a = END then Inr (s, visited)
      else case rag_node a of
             None \<Rightarrow> Inl UnknownNode
           | Some node \<Rightarrow>
               (let (update, n') = node model n s;
                    s' = apply_update s update
                in case next_node workflow_rag s' a of
                     None \<Rightarrow> Inr (s', visited @ [a])
                   | Some b \<Rightarrow> run_rag model steps b n' s' (visited @ [a])))"

text \<open>
  \<^verbatim>\<open>ragAgent.invoke(input, { configurable: { thread_id }, recursionLimit })\<close>: the input is
  folded by the reducers into the state of the thread, which is the checkpointer's saved
  state or, on a new thread, the channels' defaults; the run starts at the target of the
  edge out of \<^verbatim>\<open>START\<close>.
\<close>

definition invoke_rag ::
  "ChatModel \<Rightarrow> nat \<Rightarrow> RAGState \<Rightarrow> RAGWrite list \<Rightarrow> graph_error + (RAGState \<times> string list)" where
  "invoke_rag model recursionLimit thread input =
     (let s = apply_update thread input
      in case next_node workflow_rag s START of
           None \<Rightarrow> Inr (s, [])
         | Some a \<Rightarrow> run_rag model recursionLimit a 0 s [])"

text \<open>How often a run that ended passed through \<open>rewrite\<close>.\<close>

definition rewrite_passes :: "graph_error + (RAGState \<times> string list) \<Rightarrow> nat option" where
  "rewrite_passes r =
     (case r of Inl e \<Rightarrow> None | Inr p \<Rightarrow> Some (count_list (snd p) ''rewrite''))"

text \<open>A chat model that answers \<^verbatim>\<open>No.\<close> to every prompt: it grades every document as
  not relevant.\<close>

definition always_no :: ChatModel where
  "always_no n prompt = ''No.''"

section \<open>The skill's documents\<close>

subsection \<open>The intake menu and the routing table of SKILL.md\<close>

text \<open>The numbered options of the \<^verbatim>\<open><intake>\<close> block.\<close>

definition intake :: "(nat \<times> string) list" where
  "intake =
     [(1, ''Build a new agent from scratch''),
      (2, ''Add a feature to an existing agent''),
      (3, ''Audit/review an agent's architecture''),
      (4, ''Debug an agent issue''),
      (5, ''Write tests for an agent''),
      (6, ''Optimize agent performance''),
      (7, ''Something else'')]"

text \<open>
  The table of the \<^verbatim>\<open><routing>\<close> block, row by row. The left column lists responses: an
  option's number, quoted words, and in the last row the unquoted \<^verbatim>\<open>other\<close>. The right
  column names a workflow file to read, or in the last row tells the reader to clarify.
\<close>

datatype response = Number nat | Word string | Other

datatype action = ReadWorkflow string | Clarify

definition routing :: "(response list \<times> action) list" where
  "routing =
     [([Number 1, Word ''new'', Word ''create'', Word ''build'', Word ''start'', Word ''scaffold''],
       ReadWorkflow ''workflows/build-new-agent.md''),
      ([Number 2, Word ''add'', Word ''feature'', Word ''implement'', Word ''extend''],
       ReadWorkflow ''workflows/add-feature.md''),
      ([Number 3, Word ''audit'', Word ''review'', Word ''check'', Word ''assess'', Word ''evaluate''],
       ReadWorkflow ''workflows/audit-agent.md''),
      ([Number 4, Word ''debug'', Word ''fix'', Word ''broken'', Word ''error'', Word ''bug'', Word ''issue''],
       ReadWorkflow ''workflows/debug-agent.md''),
      ([Number 5, Word ''test'', Word ''tests'', Word ''testing'', Word ''coverage''],
       ReadWorkflow ''workflows/write-tests.md''),
      ([Number 6, Word ''optimize'', Word ''performance'', Word ''slow'', Word ''fast'', Word ''improve''],
       ReadWorkflow ''workflows/optimize-agent.md''),
      ([Number 7, Other], Clarify)]"

text \<open>What the table assigns to a response: the right column of every row that lists it.\<close>

definition route :: "response \<Rightarrow> action list" where
  "route r = map snd (filter (\<lambda>row. r \<in> set (fst row)) routing)"

definition endsWith :: "string \<Rightarrow> string \<Rightarrow> bool" where
  "endsWith s suffix = startsWith (rev s) (rev suffix)"

definition is_workflow_file :: "action \<Rightarrow> bool" where
  "is_workflow_file a =
     (case a of
        ReadWorkflow f \<Rightarrow> startsWith f ''workflows/'' \<and> endsWith f ''.md''
      | Clarify \<Rightarrow> False)"

subsection \<open>The workflows index of SKILL.md and the workflow documents\<close>

text \<open>The table of the \<^verbatim>\<open><workflows_index>\<close> block: file and purpose.\<close>

definition workflows_index :: "(string \<times> string) list" where
  "workflows_index =
     [(''build-new-agent.md'', ''Create a new LangGraph.js agent from scratch''),
      (''add-feature.md'', ''Add capabilities to an existing agent''),
      (''audit-agent.md'', ''Review architecture and identify issues''),
      (''debug-agent.md'', ''Find and fix agent bugs''),
      (''write-tests.md'', ''Test nodes, graphs, and integrations''),
      (''optimize-agent.md'', ''Improve performance and reduce latency'')]"

text \<open>
  The documents of the repository as the source tree holds them. A source file holds one
  document or several, one after the other; a document is listed with its file, its
  position in the file, and its first line.
\<close>

record document =
  source_file :: string
  part :: nat
  first_line :: string

definition repository_documents :: "document list" where
  "repository_documents =
     [\<lparr>source_file = ''references/agent-chat-ui.md'', part = 0, first_line = ''<overview>''\<rparr>,
      \<lparr>source_file = ''references/agent-skills.md'', part = 0, first_line = ''<overview>''\<rparr>,
      \<lparr>source_file = ''references/anti-patterns.md'', part = 0, first_line = ''<overview>''\<rparr>,
      \<lparr>source_file = ''references/anti-patterns.md'', part = 1, first_line = ''<overview>''\<rparr>,
      \<lparr>source_file = ''references/anti-patterns.md'', part = 2, first_line = ''<overview>''\<rparr>,
      \<lparr>source_file = ''references/graph-api.md'', part = 0, first_line = ''<overview>''\<rparr>,
      \<lparr>source_file = ''references/interrupts.md'', part = 0, first_line = ''<overview>''\<rparr>,
      \<lparr>source_file = ''references/multi-agent.md'', part = 0, first_line = ''<overview>''\<rparr>,
      \<lparr>source_file = ''references/streaming.md'', part = 0, first_line = ''<overview>''\<rparr>,
      \<lparr>source_file = ''references/subgraphs.md'', part = 0, first_line = ''<overview>''\<rparr>,
      \<lparr>source_file = ''skill/SKILL.md'', part = 0, first_line = ''---''\<rparr>,
      \<lparr>source_file = ''skill/SKILL.md'', part = 1, first_line = ''/**''\<rparr>,
      \<lparr>source_file = ''skill/references/common-patterns.md'', part = 0, first_line = ''<overview>''\<rparr>,
      \<lparr>source_file = ''skill/references/common-patterns.md'', part = 1, first_line = ''<overview>''\<rparr>,
      \<lparr>source_file = ''skill/references/functional-api.md'', part = 0, first_line = ''<overview>''\<rparr>,
      \<lparr>source_file = ''templates/multi-agent.ts'', part = 0, first_line = ''/**''\<rparr>,
      \<lparr>source_file = ''unnamed/part_000'', part = 0, first_line = ''/**''\<rparr>,
      \<lparr>source_file = ''unnamed/part_000'', part = 1,
        first_line = ''# Workflow: Audit a LangGraph.js Agent''\<rparr>,
      \<lparr>source_file = ''unnamed/part_001'', part = 0, first_line = ''<overview>''\<rparr>,
      \<lparr>source_file = ''unnamed/part_002'', part = 0, first_line = ''<overview>''\<rparr>,
      \<lparr>source_file = ''unnamed/part_003'', part = 0, first_line = ''<overview>''\<rparr>,
      \<lparr>source_file = ''unnamed/part_004'', part = 0,
        first_line = ''# Workflow: Add a Feature to a LangGraph.js Agent''\<rparr>,
      \<lparr>source_file = ''workflows/optimize-agent.md'', part = 0,
        first_line = ''# Workflow: Optimize a LangGraph.js Agent''\<rparr>,
      \<lparr>source_file = ''workflows/optimize-agent.md'', part = 1,
        first_line = ''# Workflow: Build a New LangGraph.js Agent''\<rparr>,
      \<lparr>source_file = ''workflows/write-tests.md'', part = 0,
        first_line = ''# Workflow: Write Tests for a LangGraph.js Agent''\<rparr>,
      \<lparr>source_file = ''workflows/write-tests.md'', part = 1,
        first_line = ''# Workflow: Debug a LangGraph.js Agent''\<rparr>]"

text \<open>A workflow runbook opens with the heading \<^verbatim>\<open># Workflow: ...\<close>.\<close>

definition is_workflow :: "document \<Rightarrow> bool" where
  "is_workflow d = startsWith (first_line d) ''# Workflow: ''"

definition workflow_documents :: "document list" where
  "workflow_documents = filter is_workflow repository_documents"

text \<open>The six categories of task, and the category that a runbook's heading and an index
  entry's file name stand for.\<close>

datatype category = Build | AddFeature | Audit | Debug | Test | Optimize

definition category_of_heading :: "string \<Rightarrow> category option" where
  "category_of_heading h =
     (let t = drop (length ''# Workflow: '') h
      in if \<not> startsWith h ''# Workflow: '' then None
         else if startsWith t ''Build a New '' then Some Build
         else if startsWith t ''Add a Feature '' then Some AddFeature
         else if startsWith t ''Audit '' then Some Audit
         else if startsWith t ''Debug '' then Some Debug
         else if startsWith t ''Write Tests '' then Some Test
         else if startsWith t ''Optimize '' then Some Optimize
         else None)"

definition category_of_file :: "string \<Rightarrow> category option" where
  "category_of_file f =
     (if f = ''build-new-agent.md'' then Some Build
      else if f = ''add-feature.md'' then Some AddFeature
      else if f = ''audit-agent.md'' then Some Audit
      else if f = ''debug-agent.md'' then Some Debug
      else if f = ''write-tests.md'' then Some Test
      else if f = ''optimize-agent.md'' then Some Optimize
      else None)"

subsection \<open>The header comments of the templates\<close>

text \<open>The comment that opens each template file, line by line, without the comment
  marks.\<close>

definition basic_agent_header :: "string list" where
  "basic_agent_header =
     [''Basic ReAct Agent Template'',
      [],
      ''A minimal tool-calling agent using the Graph API.'',
      ''Copy this file and customize for your use case.'']"

definition rag_agent_header :: "string list" where
  "rag_agent_header =
     [''RAG Agent Template'',
      [],
      ''Retrieval-Augmented Generation agent that:'',
      ''1. Retrieves relevant documents'',
      ''2. Grades them for relevance'',
      ''3. Generates answer or rewrites query'']"

definition multi_agent_header :: "string list" where
  "multi_agent_header =
     [''Multi-Agent Template (Supervisor Pattern)'',
      [],
      ''A supervisor agent coordinates specialized worker agents:'',
      ''- Supervisor: Routes tasks to appropriate workers'',
      ''- Researcher: Gathers information'',
      ''- Writer: Creates content'']"

text \<open>A header marks its file as a template when a line of it has the word; it carries
  the instruction when a line of it tells the reader to copy and to customize.\<close>

definition mentions :: "string list \<Rightarrow> string \<Rightarrow> bool" where
  "mentions header w = list_ex (\<lambda>l. includes_js (toLowerCase l) w) header"

definition marked_as_template :: "string list \<Rightarrow> bool" where
  "marked_as_template header = mentions header ''template''"

definition copy_and_customize :: "string list \<Rightarrow> bool" where
  "copy_and_customize header =
     list_ex (\<lambda>l. includes_js (toLowerCase l) ''copy'' \<and> includes_js (toLowerCase l) ''customize'')
       header"

section \<open>Properties of the basic agent template\<close>

lemma tools_not_END: "''tools'' \<noteq> END"
  by (simp add: END_def)

lemma shouldContinue_cases:
  "shouldContinue state =
     (if (\<exists>content calls. messages state \<noteq> [] \<and>
            last (messages state) = AIMessage content (Some calls) \<and> calls \<noteq> [])
      then ''tools'' else END)"
  by (auto simp: shouldContinue_def at_last_def split: message.splits option.splits)

lemma workflow_basic_edges:
  "edges workflow_basic = [(START, ''agent''), (''tools'', ''agent'')]"
  by (simp add: workflow_basic_def addEdge_def addNode_def addConditionalEdges_def
      new_StateGraph_def)

lemma workflow_basic_branches:
  "branches workflow_basic = [(''agent'', shouldContinue, [''tools'', END])]"
  by (simp add: workflow_basic_def addEdge_def addNode_def addConditionalEdges_def
      new_StateGraph_def)

lemma workflow_basic_nodes:
  "nodes workflow_basic = [''agent'', ''tools'']"
  by (simp add: workflow_basic_def addEdge_def addNode_def addConditionalEdges_def
      new_StateGraph_def)

text \<open>
  C3. The basic agent is a tool-calling loop. For every state, \<open>shouldContinue\<close> returns
  \<open>''tools''\<close> exactly when the last message exists, is an \<open>AIMessage\<close> and has a
  non-empty list of tool calls, and \<open>END\<close> in every other case (the two results are
  different node names). The graph has the entry edge from \<open>START\<close> to \<open>agent\<close>, one
  conditional edge, from \<open>agent\<close>, routed by \<open>shouldContinue\<close> to \<open>tools\<close> or \<open>END\<close>, and
  the edge from \<open>tools\<close> back to \<open>agent\<close>, and no other edge.
\<close>

theorem basic_agent_tool_calling_loop:
  "shouldContinue state =
     (if (\<exists>content calls. messages state \<noteq> [] \<and>
            last (messages state) = AIMessage content (Some calls) \<and> calls \<noteq> [])
      then ''tools'' else END)
   \<and> ''tools'' \<noteq> END
   \<and> nodes workflow_basic = [''agent'', ''tools'']
   \<and> edges workflow_basic = [(START, ''agent''), (''tools'', ''agent'')]
   \<and> edges_from workflow_basic START = [''agent'']
   \<and> edges_from workflow_basic ''agent'' = []
   \<and> branches workflow_basic = [(''agent'', shouldContinue, [''tools'', END])]
   \<and> edges_from workflow_basic ''tools'' = [''agent'']
   \<and> edges_to workflow_basic END = []"
  by (simp only: shouldContinue_cases tools_not_END workflow_basic_branches
      workflow_basic_nodes)
    (simp add: edges_from_def edges_to_def workflow_basic_edges START_def END_def)

subsection \<open>The tools node\<close>

lemma callTools_loop_map: "callTools_loop ts calls acc = acc @ map (callTool ts) calls"
  by (induction calls arbitrary: acc) simp_all

text \<open>\<open>callTools\<close> returns an update for every state and every list of tools.\<close>

lemma callTools_never_throws: "\<exists>u. callTools ts state = Inr u"
  by (simp add: callTools_def split: option.splits message.splits)

text \<open>When the last message is an \<open>AIMessage\<close>, the update has one message per tool
  call, the message of that call, in the order of the calls.\<close>

lemma callTools_one_per_call:
  "messages state \<noteq> [] \<Longrightarrow> last (messages state) = AIMessage c tcs \<Longrightarrow>
   callTools ts state =
     Inr \<lparr>messages = map (callTool ts) (case tcs of None \<Rightarrow> [] | Some calls \<Rightarrow> calls)\<rparr>"
  by (simp add: callTools_def at_last_def callTools_loop_map)

lemma callTools_not_ai:
  "messages state = [] \<or> (\<forall>c tcs. last (messages state) \<noteq> AIMessage c tcs) \<Longrightarrow>
   callTools ts state = Inr \<lparr>messages = []\<rparr>"
  by (auto simp: callTools_def at_last_def split: message.splits)

text \<open>A name for which the property read gives \<^verbatim>\<open>undefined\<close> is answered with
  \<^verbatim>\<open>Unknown tool\<close>; a tool that throws is answered with \<^verbatim>\<open>Error: ...\<close>.\<close>

lemma callTool_undefined:
  "toolsByName ts (name tc) = Undefined \<Longrightarrow>
   callTool ts tc = ToolMessage (''Unknown tool: '' @ name tc) (id_call tc)"
  by (simp add: callTool_def truthy_def)

lemma callTool_throws:
  "toolsByName ts (name tc) = Own t \<Longrightarrow> invoke t tc = Throws e \<Longrightarrow>
   \<exists>rest. callTool ts tc = ToolMessage (''Error: '' @ rest) (id_call tc)"
  by (simp add: callTool_def truthy_def invoke_property_def caught_def)

lemma callTool_returns:
  "toolsByName ts (name tc) = Own t \<Longrightarrow> invoke t tc = Returns m \<Longrightarrow>
   callTool ts tc = m"
  by (simp add: callTool_def truthy_def invoke_property_def)

text \<open>
  C10. \<open>callTools\<close> should answer a call that names a tool absent from \<open>toolsByName\<close>
  with \<^verbatim>\<open>Unknown tool: <name>\<close>. The template's tools are \<open>[exampleTool]\<close>, so no tool is
  named \<^verbatim>\<open>constructor\<close>: the entries that \<open>toolsByName\<close> is built from have no such key.
  Yet the property read finds the member that every object inherits, the guard
  \<^verbatim>\<open>if (!tool)\<close> lets it pass, and the call is answered from the \<^verbatim>\<open>catch\<close> block with
  \<^verbatim>\<open>Error: tool.invoke is not a function\<close> instead.
\<close>

theorem callTools_inherited_name:
  "fromEntries (map (\<lambda>t. (tool_name t, t)) tools) ''constructor'' = None
   \<and> toolsByName tools ''constructor'' = Inherited
   \<and> callTools tools
       \<lparr>messages = [AIMessage [] (Some [\<lparr>name = ''constructor'', args = [], id_call = Some ''call_1''\<rparr>])]\<rparr>
     = Inr \<lparr>messages = [ToolMessage ''Error: tool.invoke is not a function'' (Some ''call_1'')]\<rparr>"
  by (simp add: callTools_def at_last_def callTool_def toolsByName_def fromEntries_def tools_def
      exampleTool_def Object_prototype_keys_def caught_def not_a_function_def truthy_def
      invoke_property_def)

section \<open>Properties of the multi-agent template\<close>

lemma workflow_multi_edges:
  "edges workflow_multi =
     [(START, ''supervisor''), (''researcher'', ''supervisor''), (''writer'', ''supervisor''),
      (''finalize'', END)]"
  by (simp add: workflow_multi_def addEdge_def addNode_def addConditionalEdges_def
      new_StateGraph_def)

lemma workflow_multi_branches:
  "branches workflow_multi =
     [(''supervisor'', routeFromSupervisor, [''researcher'', ''writer'', ''finalize''])]"
  by (simp add: workflow_multi_def addEdge_def addNode_def addConditionalEdges_def
      new_StateGraph_def)

text \<open>
  C4. The multi-agent template is a supervisor-routes-workers loop. The only edge out of
  \<open>START\<close> goes to \<open>supervisor\<close>; the graph has one conditional edge, out of \<open>supervisor\<close>,
  routed by \<open>routeFromSupervisor\<close> with the declared targets \<open>researcher\<close>, \<open>writer\<close> and
  \<open>finalize\<close>; \<open>researcher\<close> and \<open>writer\<close> each have one unconditional edge, back to
  \<open>supervisor\<close>; and the only edge into \<open>END\<close> comes from \<open>finalize\<close>, \<open>END\<close> being
  none of the conditional edge's targets.
\<close>

theorem multi_agent_supervisor_loop:
  "edges workflow_multi =
     [(START, ''supervisor''), (''researcher'', ''supervisor''), (''writer'', ''supervisor''),
      (''finalize'', END)]
   \<and> edges_from workflow_multi START = [''supervisor'']
   \<and> edges_to workflow_multi ''supervisor'' = [START, ''researcher'', ''writer'']
   \<and> branches workflow_multi =
       [(''supervisor'', routeFromSupervisor, [''researcher'', ''writer'', ''finalize''])]
   \<and> edges_from workflow_multi ''supervisor'' = []
   \<and> edges_from workflow_multi ''researcher'' = [''supervisor'']
   \<and> edges_from workflow_multi ''writer'' = [''supervisor'']
   \<and> edges_from workflow_multi ''finalize'' = [END]
   \<and> edges_to workflow_multi END = [''finalize'']
   \<and> END \<notin> set [''researcher'', ''writer'', ''finalize'']"
  by (simp only: workflow_multi_branches)
    (simp add: edges_from_def edges_to_def workflow_multi_edges START_def END_def)

text \<open>
  C8. \<open>routeFromSupervisor\<close> is total and safe. For every state its result is one of the
  three targets that the conditional edge out of \<open>supervisor\<close> declares; for every state
  with more than 10 iterations it is \<open>finalize\<close>, whatever \<open>currentAgent\<close> says; and
  for every state whose lower-cased \<open>currentAgent\<close> contains none of \<open>finish\<close>,
  \<open>researcher\<close> and \<open>writer\<close> it is \<open>finalize\<close> as well.
\<close>

theorem routeFromSupervisor_total_and_safe:
  "routeFromSupervisor state \<in> set [''researcher'', ''writer'', ''finalize'']
   \<and> conditional_targets workflow_multi =
       [(''supervisor'', [''researcher'', ''writer'', ''finalize''])]
   \<and> (iterations state > 10 \<longrightarrow> routeFromSupervisor state = ''finalize'')
   \<and> (\<not> includes_js (toLowerCase (currentAgent state)) ''finish'' \<and>
      \<not> includes_js (toLowerCase (currentAgent state)) ''researcher'' \<and>
      \<not> includes_js (toLowerCase (currentAgent state)) ''writer''
      \<longrightarrow> routeFromSupervisor state = ''finalize'')"
  by (simp add: routeFromSupervisor_def Let_def conditional_targets_def workflow_multi_branches)

text \<open>The theorem at two states: one past the safety limit whose decision names a worker,
  and one within the limit whose decision names nothing.\<close>

theorem routeFromSupervisor_total_and_safe_witness:
  "iterations \<lparr>messages = [], task = ''t'', currentAgent = ''researcher'', researchNotes = [],
      draft = [], iterations = 11\<rparr> > 10
   \<and> routeFromSupervisor \<lparr>messages = [], task = ''t'', currentAgent = ''researcher'',
      researchNotes = [], draft = [], iterations = 11\<rparr> = ''finalize''
   \<and> \<not> includes_js (toLowerCase ''I am not sure'') ''finish''
   \<and> \<not> includes_js (toLowerCase ''I am not sure'') ''researcher''
   \<and> \<not> includes_js (toLowerCase ''I am not sure'') ''writer''
   \<and> routeFromSupervisor \<lparr>messages = [], task = ''t'', currentAgent = ''I am not sure'',
      researchNotes = [], draft = [], iterations = 1\<rparr> = ''finalize''"
proof -
  let ?a = "\<lparr>messages = [], task = ''t'', currentAgent = ''researcher'', researchNotes = [],
      draft = [], iterations = 11\<rparr>"
  let ?b = "\<lparr>messages = [], task = ''t'', currentAgent = ''I am not sure'',
      researchNotes = [], draft = [], iterations = 1\<rparr>"
  have h1: "iterations ?a > 10" by simp
  have h2: "\<not> includes_js (toLowerCase ''I am not sure'') ''finish''" by code_simp
  have h3: "\<not> includes_js (toLowerCase ''I am not sure'') ''researcher''" by code_simp
  have h4: "\<not> includes_js (toLowerCase ''I am not sure'') ''writer''" by code_simp
  from routeFromSupervisor_total_and_safe [of ?a] h1
  have c1: "routeFromSupervisor ?a = ''finalize''" by blast
  from routeFromSupervisor_total_and_safe [of ?b] h2 h3 h4
  have c2: "routeFromSupervisor ?b = ''finalize''" by simp
  from h1 h2 h3 h4 c1 c2 show ?thesis by blast
qed

section \<open>Properties of the RAG template\<close>

lemma workflow_rag_edges:
  "edges workflow_rag =
     [(START, ''retrieve''), (''retrieve'', ''grade''), (''rewrite'', ''retrieve''),
      (''generate'', END)]"
  by (simp add: workflow_rag_def addEdge_def addNode_def addConditionalEdges_def
      new_StateGraph_def)

lemma workflow_rag_branches:
  "branches workflow_rag = [(''grade'', routeAfterGrade, [''generate'', ''rewrite''])]"
  by (simp add: workflow_rag_def addEdge_def addNode_def addConditionalEdges_def
      new_StateGraph_def)

text \<open>
  C5. The RAG template is a retrieval-grade-generate loop. The graph has the edge from
  \<open>START\<close> to \<open>retrieve\<close>, the edge from \<open>retrieve\<close> to \<open>grade\<close>, one conditional edge,
  out of \<open>grade\<close>, routed by \<open>routeAfterGrade\<close> with the declared targets \<open>generate\<close>
  and \<open>rewrite\<close>, the edge from \<open>rewrite\<close> back to \<open>retrieve\<close>, and the edge from
  \<open>generate\<close> to \<open>END\<close>, which is the only edge into \<open>END\<close>.
\<close>

theorem rag_retrieval_grade_generate_loop:
  "edges workflow_rag =
     [(START, ''retrieve''), (''retrieve'', ''grade''), (''rewrite'', ''retrieve''),
      (''generate'', END)]
   \<and> edges_from workflow_rag START = [''retrieve'']
   \<and> edges_from workflow_rag ''retrieve'' = [''grade'']
   \<and> edges_from workflow_rag ''grade'' = []
   \<and> branches workflow_rag = [(''grade'', routeAfterGrade, [''generate'', ''rewrite''])]
   \<and> edges_from workflow_rag ''rewrite'' = [''retrieve'']
   \<and> edges_from workflow_rag ''generate'' = [END]
   \<and> edges_to workflow_rag END = [''generate'']"
  by (simp only: workflow_rag_branches)
    (simp add: edges_from_def edges_to_def workflow_rag_edges START_def END_def)

subsection \<open>Rounding\<close>

lemma pow2_powi: "pow2 k = 2 powi k"
  by (simp add: pow2_def power_int_def field_simps)

lemma pow2_pos: "0 < pow2 k"
  by (simp add: pow2_def)

lemma pow2_add: "pow2 (a + b) = pow2 a * pow2 b"
  by (simp add: pow2_powi power_int_add)

lemma pow2_mono: "a \<le> b \<Longrightarrow> pow2 a \<le> pow2 b"
  by (simp add: pow2_powi power_int_increasing)

lemma round_half_even_ge: "of_int k \<le> q \<Longrightarrow> k \<le> round_half_even q"
proof -
  assume "of_int k \<le> q"
  then have "k \<le> \<lfloor>q\<rfloor>" by (simp add: le_floor_iff)
  then show ?thesis by (simp add: round_half_even_def Let_def)
qed

text \<open>A value of at least \<open>2\<close> to the \<open>m\<close>, \<open>m\<close> not negative, has a binary exponent of at
  least \<open>m\<close>, and \<open>2\<close> to its exponent is below it or equal.\<close>

lemma floor_log2_bounds:
  assumes "0 \<le> m" and "pow2 m \<le> a"
  shows "m \<le> floor_log2 a" and "pow2 (floor_log2 a) \<le> a"
proof -
  from assms(1) have "1 \<le> pow2 m" by (simp add: pow2_def)
  with assms(2) have a1: "1 \<le> a" by linarith
  then have fpos: "0 < \<lfloor>a\<rfloor>" by simp
  have e: "floor_log2 a = bitlen \<lfloor>a\<rfloor> - 1" using a1 by (simp add: floor_log2_def)
  from bitlen_bounds [OF fpos]
  have lo: "2 ^ nat (bitlen \<lfloor>a\<rfloor> - 1) \<le> \<lfloor>a\<rfloor>" and hi: "\<lfloor>a\<rfloor> < 2 ^ nat (bitlen \<lfloor>a\<rfloor>)"
    by simp_all
  have b1: "1 \<le> bitlen \<lfloor>a\<rfloor>"
    using fpos bitlen_eq_zero_iff [of "\<lfloor>a\<rfloor>"] bitlen_nonneg [of "\<lfloor>a\<rfloor>"] by linarith
  from assms have "(2::rat) ^ nat m \<le> a" by (simp add: pow2_def)
  then have "of_int (2 ^ nat m) \<le> a" by simp
  then have "(2::int) ^ nat m \<le> \<lfloor>a\<rfloor>" by (simp only: le_floor_iff)
  with hi have "(2::int) ^ nat m < 2 ^ nat (bitlen \<lfloor>a\<rfloor>)" by linarith
  then have "nat m < nat (bitlen \<lfloor>a\<rfloor>)" by simp
  with assms(1) b1 show "m \<le> floor_log2 a" unfolding e by linarith
  from lo have "(of_int (2 ^ nat (bitlen \<lfloor>a\<rfloor> - 1)) :: rat) \<le> of_int \<lfloor>a\<rfloor>"
    by (simp only: of_int_le_iff)
  also have "\<dots> \<le> a" by simp
  finally show "pow2 (floor_log2 a) \<le> a"
    unfolding e using b1 by (simp add: pow2_def)
qed

text \<open>Rounding does not take a value below a power of two that it has reached: the
  significand of the rounded value is at least \<open>2\<close> to the 52.\<close>

lemma round_binary64_ge:
  assumes "0 \<le> m" and "pow2 m \<le> x"
  shows "js_ge (round_binary64 x) (Finite (pow2 m))"
proof -
  from assms have xpos: "0 < x" using pow2_pos [of m] by linarith
  let ?e = "max (floor_log2 x) (- 1022)"
  let ?ulp = "pow2 (?e - 52)"
  let ?n = "round_half_even (x / ?ulp)"
  let ?r = "of_int ?n * ?ulp"
  from floor_log2_bounds [OF assms]
  have me: "m \<le> floor_log2 x" and ex: "pow2 (floor_log2 x) \<le> x"
    by simp_all
  from me assms(1) have emax: "?e = floor_log2 x" by simp
  have split: "pow2 52 * ?ulp = pow2 ?e"
    using pow2_add [of 52 "?e - 52"] by simp
  with ex emax have "pow2 52 * ?ulp \<le> x" by simp
  then have "pow2 52 \<le> x / ?ulp"
    using pow2_pos [of "?e - 52"] by (simp add: pos_le_divide_eq)
  moreover have p52: "pow2 52 = of_int (2 ^ 52)" by (simp add: pow2_def)
  ultimately have "2 ^ 52 \<le> ?n"
    using round_half_even_ge [of "2 ^ 52" "x / ?ulp"] by simp
  then have "(of_int (2 ^ 52) :: rat) \<le> of_int ?n" by (simp only: of_int_le_iff)
  then have "pow2 52 * ?ulp \<le> ?r"
    using pow2_pos [of "?e - 52"] p52
    by (simp only: mult_le_cancel_right) linarith
  with split have "pow2 ?e \<le> ?r" by simp
  moreover have "pow2 m \<le> pow2 ?e" using me emax by (simp add: pow2_mono)
  ultimately have r: "pow2 m \<le> ?r" by linarith
  from xpos have "round_binary64 x = (if pow2 1024 \<le> ?r then PosInfinity else Finite ?r)"
    by (simp add: round_binary64_def Let_def)
  with r show ?thesis by simp
qed

lemma add_one_ge_1: "0 \<le> x \<Longrightarrow> js_ge (js_add (Finite x) (Finite 1)) (Finite 1)"
  using round_binary64_ge [of 0 "x + 1"] by (simp add: pow2_def)

lemma add_one_ge_2: "1 \<le> x \<Longrightarrow> js_ge (js_add (Finite x) (Finite 1)) (Finite 2)"
  using round_binary64_ge [of 1 "x + 1"] by (simp add: pow2_def)

lemma js_ge_below_2:
  "js_ge c (Finite q) \<Longrightarrow> \<not> js_ge c (Finite 2) \<Longrightarrow> \<exists>x. c = Finite x \<and> q \<le> x \<and> x < 2"
  by (cases c) auto

lemma js_ge_trans_Finite: "js_ge c (Finite q) \<Longrightarrow> p \<le> q \<Longrightarrow> js_ge c (Finite p)"
  by (cases c) auto

lemma js_lt_from_ge: "js_ge r (Finite q) \<Longrightarrow> x < q \<Longrightarrow> js_lt (Finite x) r"
  by (cases r) auto

text \<open>For a number that is 0 or more, \<^verbatim>\<open>c >= 2\<close> is false exactly when \<^verbatim>\<open>c < 2\<close>.\<close>

lemma not_ge_2_iff_lt_2: "js_ge c (Finite 0) \<Longrightarrow> (\<not> js_ge c (Finite 2)) = js_lt c (Finite 2)"
  by (cases c) auto

text \<open>Adding 1 to a number from 0 up to, but not, 2 gives a greater number.\<close>

lemma add_one_increases:
  assumes "js_ge c (Finite 0)" and "js_lt c (Finite 2)"
  shows "js_lt c (js_add c (Finite 1))"
proof -
  from assms have "\<not> js_ge c (Finite 2)" by (simp add: not_ge_2_iff_lt_2)
  from js_ge_below_2 [OF assms(1) this] obtain x
    where c: "c = Finite x" and x: "0 \<le> x" "x < 2"
    by blast
  show "js_lt c (js_add c (Finite 1))"
  proof (cases "x < 1")
    case True
    with add_one_ge_1 [OF x(1)] show ?thesis
      unfolding c by (rule js_lt_from_ge)
  next
    case False
    then have "1 \<le> x" by simp
    from add_one_ge_2 [OF this] x(2) show ?thesis
      unfolding c by (rule js_lt_from_ge)
  qed
qed

subsection \<open>The rewrite loop\<close>

lemma routeAfterGrade_rewrite:
  "(routeAfterGrade s = ''rewrite'') = (documents s = [] \<and> \<not> js_ge (retryCount s) (Finite 2))"
  by (auto simp: routeAfterGrade_def)

lemma routeAfterGrade_cases:
  "routeAfterGrade s =
     (if documents s = [] \<and> \<not> js_ge (retryCount s) (Finite 2) then ''rewrite''
      else ''generate'')"
  by (auto simp: routeAfterGrade_def)

text \<open>Only \<open>rewriteQuery\<close> writes \<open>retryCount\<close>, and the reducer adds its 1.\<close>

lemma retryCount_retrieve:
  "retryCount (apply_update s (fst (retrieve M n s))) = retryCount s"
  by (simp add: apply_update_def retrieve_def Let_def)

lemma retryCount_gradeDocuments:
  "retryCount (apply_update s (fst (gradeDocuments M n s))) = retryCount s"
  by (simp add: apply_update_def gradeDocuments_def case_prod_beta)

lemma retryCount_rewriteQuery:
  "retryCount (apply_update s (fst (rewriteQuery M n s))) = js_add (retryCount s) (Finite 1)"
  by (simp add: apply_update_def rewriteQuery_def Let_def)

lemma next_node_rag:
  "next_node workflow_rag s START = Some ''retrieve''"
  "next_node workflow_rag s ''retrieve'' = Some ''grade''"
  "next_node workflow_rag s ''grade'' = Some (routeAfterGrade s)"
  "next_node workflow_rag s ''rewrite'' = Some ''retrieve''"
  "next_node workflow_rag s ''generate'' = Some END"
  by (simp_all add: next_node_def edges_from_def workflow_rag_edges workflow_rag_branches
      START_def END_def)

text \<open>One step of a run, and the step at each node of the graph.\<close>

lemma run_rag_step:
  "a \<noteq> END \<Longrightarrow> rag_node a = Some node \<Longrightarrow>
   next_node workflow_rag (apply_update s (fst (node M n s))) a = Some b \<Longrightarrow>
   run_rag M (Suc k) a n s vis =
     run_rag M k b (snd (node M n s)) (apply_update s (fst (node M n s))) (vis @ [a])"
  by (simp add: case_prod_beta Let_def)

lemma run_rag_END: "run_rag M k END n s vis = Inr (s, vis)"
  by (cases k) simp_all

lemma run_rag_retrieve:
  "run_rag M (Suc k) ''retrieve'' n s vis =
     run_rag M k ''grade'' (snd (retrieve M n s)) (apply_update s (fst (retrieve M n s)))
       (vis @ [''retrieve''])"
  by (rule run_rag_step) (simp_all add: END_def rag_node_def next_node_rag)

lemma run_rag_grade:
  "run_rag M (Suc k) ''grade'' n s vis =
     run_rag M k (routeAfterGrade (apply_update s (fst (gradeDocuments M n s))))
       (snd (gradeDocuments M n s)) (apply_update s (fst (gradeDocuments M n s)))
       (vis @ [''grade''])"
  by (rule run_rag_step) (simp_all add: END_def rag_node_def next_node_rag)

lemma run_rag_rewrite:
  "run_rag M (Suc k) ''rewrite'' n s vis =
     run_rag M k ''retrieve'' (snd (rewriteQuery M n s))
       (apply_update s (fst (rewriteQuery M n s))) (vis @ [''rewrite''])"
  by (rule run_rag_step) (simp_all add: END_def rag_node_def next_node_rag)

lemma run_rag_generate:
  "run_rag M (Suc k) ''generate'' n s vis =
     Inr (apply_update s (fst (generate M n s)), vis @ [''generate''])"
proof -
  have "run_rag M (Suc k) ''generate'' n s vis =
     run_rag M k END (snd (generate M n s)) (apply_update s (fst (generate M n s)))
       (vis @ [''generate''])"
    by (rule run_rag_step) (simp_all add: END_def rag_node_def next_node_rag)
  then show ?thesis by (simp only: run_rag_END)
qed

text \<open>A larger recursion limit does not change the result of a run that ended.\<close>

lemma run_rag_mono:
  "run_rag M k a n s vis = Inr r \<Longrightarrow> run_rag M (k + d) a n s vis = Inr r"
proof (induction k arbitrary: a n s vis)
  case 0
  then have "a = END" and "r = (s, vis)"
    by (auto split: if_splits)
  then show ?case by (simp only: run_rag_END)
next
  case (Suc k)
  then show ?case
    by (auto simp: Let_def case_prod_beta split: if_splits option.splits)
qed

text \<open>
  Three steps from \<open>retrieve\<close>: either the run ends, with \<open>generate\<close> as the third node,
  or \<open>retryCount\<close> is not 2 or more, the third node is \<open>rewrite\<close>, and the run goes on
  from \<open>retrieve\<close> with 1 added to \<open>retryCount\<close>.
\<close>

lemma run_rag_cycle:
  "(\<exists>s'. run_rag M (Suc (Suc (Suc k))) ''retrieve'' n s vis =
           Inr (s', vis @ [''retrieve'', ''grade'', ''generate'']))
   \<or> (\<not> js_ge (retryCount s) (Finite 2) \<and>
       (\<exists>n' s'. retryCount s' = js_add (retryCount s) (Finite 1) \<and>
          run_rag M (Suc (Suc (Suc k))) ''retrieve'' n s vis =
            run_rag M k ''retrieve'' n' s' (vis @ [''retrieve'', ''grade'', ''rewrite''])))"
proof -
  let ?s1 = "apply_update s (fst (retrieve M n s))"
  let ?n1 = "snd (retrieve M n s)"
  let ?s2 = "apply_update ?s1 (fst (gradeDocuments M ?n1 ?s1))"
  let ?n2 = "snd (gradeDocuments M ?n1 ?s1)"
  let ?s3 = "apply_update ?s2 (fst (rewriteQuery M ?n2 ?s2))"
  let ?n3 = "snd (rewriteQuery M ?n2 ?s2)"
  have r2: "retryCount ?s2 = retryCount s"
    by (simp add: retryCount_gradeDocuments retryCount_retrieve)
  show ?thesis
  proof (cases "routeAfterGrade ?s2 = ''rewrite''")
    case False
    then have g: "routeAfterGrade ?s2 = ''generate''"
      by (simp add: routeAfterGrade_cases split: if_splits)
    have "run_rag M (Suc (Suc (Suc k))) ''retrieve'' n s vis =
            Inr (apply_update ?s2 (fst (generate M ?n2 ?s2)),
                 vis @ [''retrieve'', ''grade'', ''generate''])"
      by (simp add: run_rag_retrieve run_rag_grade g run_rag_generate del: run_rag.simps)
    then show ?thesis by blast
  next
    case True
    then have below: "\<not> js_ge (retryCount s) (Finite 2)"
      using r2 by (simp add: routeAfterGrade_rewrite)
    have r3: "retryCount ?s3 = js_add (retryCount s) (Finite 1)"
      by (simp only: retryCount_rewriteQuery r2)
    have "run_rag M (Suc (Suc (Suc k))) ''retrieve'' n s vis =
            run_rag M k ''retrieve'' ?n3 ?s3 (vis @ [''retrieve'', ''grade'', ''rewrite''])"
      by (simp add: run_rag_retrieve run_rag_grade True run_rag_rewrite del: run_rag.simps)
    with below r3 show ?thesis by blast
  qed
qed

text \<open>With \<open>retryCount\<close> at 2 or more, the run ends without a pass through \<open>rewrite\<close>.\<close>

lemma run_rag_from_2:
  assumes "js_ge (retryCount s) (Finite 2)"
  shows "\<exists>s'. run_rag M (Suc (Suc (Suc k))) ''retrieve'' n s vis =
           Inr (s', vis @ [''retrieve'', ''grade'', ''generate''])"
  using run_rag_cycle [of M k n s vis] assms by blast

text \<open>With \<open>retryCount\<close> at 1 or more, it ends after at most one pass.\<close>

lemma run_rag_from_1:
  assumes "js_ge (retryCount s) (Finite 1)"
  shows "\<exists>s' tr. run_rag M (Suc (Suc (Suc (Suc (Suc (Suc k)))))) ''retrieve'' n s vis =
           Inr (s', vis @ tr @ [''generate'']) \<and> count_list tr ''rewrite'' \<le> 1"
proof -
  from run_rag_cycle [of M "Suc (Suc (Suc k))" n s vis]
  consider
    (ends) s' where "run_rag M (Suc (Suc (Suc (Suc (Suc (Suc k)))))) ''retrieve'' n s vis =
           Inr (s', vis @ [''retrieve'', ''grade'', ''generate''])"
  | (again) n' s' where "\<not> js_ge (retryCount s) (Finite 2)"
      "retryCount s' = js_add (retryCount s) (Finite 1)"
      "run_rag M (Suc (Suc (Suc (Suc (Suc (Suc k)))))) ''retrieve'' n s vis =
         run_rag M (Suc (Suc (Suc k))) ''retrieve'' n' s' (vis @ [''retrieve'', ''grade'', ''rewrite''])"
    by blast
  then show ?thesis
  proof cases
    case ends
    then have "run_rag M (Suc (Suc (Suc (Suc (Suc (Suc k)))))) ''retrieve'' n s vis =
           Inr (s', vis @ [''retrieve'', ''grade''] @ [''generate''])
        \<and> count_list [''retrieve'', ''grade''] ''rewrite'' \<le> 1"
      by simp
    then show ?thesis by blast
  next
    case again
    from js_ge_below_2 [OF assms again(1)] obtain x where "retryCount s = Finite x" "1 \<le> x"
      by blast
    with again(2) add_one_ge_2 have "js_ge (retryCount s') (Finite 2)" by simp
    from run_rag_from_2 [OF this, of M k n' "vis @ [''retrieve'', ''grade'', ''rewrite'']"]
    obtain s'' where "run_rag M (Suc (Suc (Suc k))) ''retrieve'' n' s'
          (vis @ [''retrieve'', ''grade'', ''rewrite'']) =
        Inr (s'', (vis @ [''retrieve'', ''grade'', ''rewrite'']) @ [''retrieve'', ''grade'', ''generate''])"
      by blast
    with again(3)
    have "run_rag M (Suc (Suc (Suc (Suc (Suc (Suc k)))))) ''retrieve'' n s vis =
        Inr (s'', vis @ [''retrieve'', ''grade'', ''rewrite'', ''retrieve'', ''grade''] @ [''generate''])
      \<and> count_list [''retrieve'', ''grade'', ''rewrite'', ''retrieve'', ''grade''] ''rewrite'' \<le> 1"
      by simp
    then show ?thesis by blast
  qed
qed

text \<open>With \<open>retryCount\<close> at 0 or more, it ends after at most two passes.\<close>

lemma run_rag_from_0:
  assumes "js_ge (retryCount s) (Finite 0)"
  shows "\<exists>s' tr. run_rag M (Suc (Suc (Suc (Suc (Suc (Suc (Suc (Suc (Suc k))))))))) ''retrieve'' n s vis =
           Inr (s', vis @ tr @ [''generate'']) \<and> count_list tr ''rewrite'' \<le> 2"
proof -
  let ?k6 = "Suc (Suc (Suc (Suc (Suc (Suc k)))))"
  from run_rag_cycle [of M ?k6 n s vis]
  consider
    (ends) s' where "run_rag M (Suc (Suc (Suc ?k6))) ''retrieve'' n s vis =
           Inr (s', vis @ [''retrieve'', ''grade'', ''generate''])"
  | (again) n' s' where "\<not> js_ge (retryCount s) (Finite 2)"
      "retryCount s' = js_add (retryCount s) (Finite 1)"
      "run_rag M (Suc (Suc (Suc ?k6))) ''retrieve'' n s vis =
         run_rag M ?k6 ''retrieve'' n' s' (vis @ [''retrieve'', ''grade'', ''rewrite''])"
    by blast
  then show ?thesis
  proof cases
    case ends
    then have "run_rag M (Suc (Suc (Suc ?k6))) ''retrieve'' n s vis =
           Inr (s', vis @ [''retrieve'', ''grade''] @ [''generate''])
        \<and> count_list [''retrieve'', ''grade''] ''rewrite'' \<le> 2"
      by simp
    then show ?thesis by blast
  next
    case again
    from js_ge_below_2 [OF assms again(1)] obtain x where "retryCount s = Finite x" "0 \<le> x"
      by blast
    with again(2) add_one_ge_1 have "js_ge (retryCount s') (Finite 1)" by simp
    from run_rag_from_1 [OF this, of M k n' "vis @ [''retrieve'', ''grade'', ''rewrite'']"]
    obtain s'' tr where run: "run_rag M ?k6 ''retrieve'' n' s'
          (vis @ [''retrieve'', ''grade'', ''rewrite'']) =
        Inr (s'', (vis @ [''retrieve'', ''grade'', ''rewrite'']) @ tr @ [''generate''])"
      and cnt: "count_list tr ''rewrite'' \<le> 1"
      by blast
    from again(3) run
    have "run_rag M (Suc (Suc (Suc ?k6))) ''retrieve'' n s vis =
        Inr (s'', vis @ ([''retrieve'', ''grade'', ''rewrite''] @ tr) @ [''generate''])"
      by simp
    moreover from cnt have "count_list ([''retrieve'', ''grade'', ''rewrite''] @ tr) ''rewrite'' \<le> 2"
      by simp
    ultimately show ?thesis by blast
  qed
qed

lemma invoke_rag_run:
  "invoke_rag M recursionLimit thread input =
     run_rag M recursionLimit ''retrieve'' 0 (apply_update thread input) []"
  by (simp add: invoke_rag_def Let_def next_node_rag)

text \<open>
  C9, as the code has it. The rewrite loop is bounded in a run that starts with
  \<open>retryCount\<close> at 0 or more, which is the input folded by the reducer into the thread's
  value, the default 0 on a new thread. \<open>routeAfterGrade\<close> returns \<open>rewrite\<close> exactly when
  the documents list is empty and \<^verbatim>\<open>retryCount >= 2\<close> is false, which for a \<open>retryCount\<close>
  of 0 or more is to say that it is below 2. The update of \<open>rewriteQuery\<close> adds 1 to
  \<open>retryCount\<close> through the additive reducer, and for a \<open>retryCount\<close> from 0 up to 2 the
  sum is a greater number. So in such a run the rewrite-to-retrieve cycle is taken at
  most twice before the run is routed to \<open>generate\<close>, where it ends: it does so within the
  default recursion limit, and under any recursion limit a run that ends has done so.
\<close>

theorem rag_rewrite_loop_bounded:
  "(routeAfterGrade s = ''rewrite'') = (documents s = [] \<and> \<not> js_ge (retryCount s) (Finite 2))
   \<and> retryCount (apply_update s (fst (rewriteQuery M n s))) = js_add (retryCount s) (Finite 1)
   \<and> (js_ge (retryCount s) (Finite 0) \<longrightarrow>
        (routeAfterGrade s = ''rewrite'') = (documents s = [] \<and> js_lt (retryCount s) (Finite 2))
        \<and> (js_lt (retryCount s) (Finite 2) \<longrightarrow>
             js_lt (retryCount s) (retryCount (apply_update s (fst (rewriteQuery M n s))))))
   \<and> (js_ge (retryCount (apply_update thread input)) (Finite 0) \<longrightarrow>
        (\<exists>s' tr. invoke_rag M default_recursionLimit thread input = Inr (s', tr @ [''generate''])
                \<and> count_list tr ''rewrite'' \<le> 2))
   \<and> (js_ge (retryCount (apply_update thread input)) (Finite 0)
        \<and> invoke_rag M recursionLimit thread input = Inr r \<longrightarrow>
        count_list (snd r) ''rewrite'' \<le> 2 \<and> last (snd r) = ''generate'')"
proof -
  let ?s0 = "apply_update thread input"
  have enough: "\<exists>s' tr. run_rag M (k + 9) ''retrieve'' 0 ?s0 [] = Inr (s', tr @ [''generate''])
      \<and> count_list tr ''rewrite'' \<le> 2" if "js_ge (retryCount ?s0) (Finite 0)" for k
  proof -
    have eq: "k + 9 = Suc (Suc (Suc (Suc (Suc (Suc (Suc (Suc (Suc k))))))))" by simp
    from run_rag_from_0 [OF that, of M k 0 "[]"] show ?thesis
      unfolding eq by (simp del: run_rag.simps)
  qed
  have default: "\<exists>s' tr. invoke_rag M default_recursionLimit thread input =
      Inr (s', tr @ [''generate'']) \<and> count_list tr ''rewrite'' \<le> 2"
    if "js_ge (retryCount ?s0) (Finite 0)"
    using enough [OF that, of 16]
    by (simp add: invoke_rag_run default_recursionLimit_def del: run_rag.simps)
  have ended: "count_list (snd r) ''rewrite'' \<le> 2 \<and> last (snd r) = ''generate''"
    if start: "js_ge (retryCount ?s0) (Finite 0)"
      and run: "invoke_rag M recursionLimit thread input = Inr r"
  proof -
    from run have "run_rag M (recursionLimit + 9) ''retrieve'' 0 ?s0 [] = Inr r"
      by (simp only: invoke_rag_run run_rag_mono)
    with enough [OF start, of recursionLimit] obtain s' tr
      where "r = (s', tr @ [''generate''])" and "count_list tr ''rewrite'' \<le> 2"
      by auto
    then show ?thesis by simp
  qed
  have route: "(routeAfterGrade s = ''rewrite'') =
      (documents s = [] \<and> js_lt (retryCount s) (Finite 2))"
    if "js_ge (retryCount s) (Finite 0)"
    using not_ge_2_iff_lt_2 [OF that] by (simp add: routeAfterGrade_rewrite)
  have grows: "js_lt (retryCount s) (retryCount (apply_update s (fst (rewriteQuery M n s))))"
    if "js_ge (retryCount s) (Finite 0)" and "js_lt (retryCount s) (Finite 2)"
    using add_one_increases [OF that] by (simp only: retryCount_rewriteQuery)
  from route grows default ended show ?thesis
    by (simp only: routeAfterGrade_rewrite retryCount_rewriteQuery) blast
qed

subsection \<open>Runs on concrete inputs\<close>

lemma bitlen_small:
  "bitlen 1 = 1" "bitlen 2 = 2" "bitlen 3 = 2" "bitlen 4 = 3" "bitlen 5 = 3" "bitlen 6 = 3"
  by code_simp+

text \<open>The integers that the runs below meet are binary64 values: rounding keeps them.\<close>

lemma round_small:
  "round_binary64 0 = Finite 0"
  "round_binary64 1 = Finite 1"
  "round_binary64 2 = Finite 2"
  "round_binary64 (- 1) = Finite (- 1)"
  "round_binary64 (- 2) = Finite (- 2)"
  "round_binary64 (- 3) = Finite (- 3)"
  "round_binary64 (- 4) = Finite (- 4)"
  "round_binary64 (- 5) = Finite (- 5)"
  "round_binary64 (- 6) = Finite (- 6)"
  by (simp_all add: round_binary64_def floor_log2_def pow2_def round_half_even_def bitlen_small
      Let_def)

lemma always_no_grade: "\<not> includes_js (toLowerCase ''No.'') ''yes''"
  by code_simp

lemmas run_eval = invoke_rag_run default_recursionLimit_def eval_nat_numeral run_rag_retrieve
  run_rag_grade run_rag_rewrite run_rag_generate apply_update_def default_RAGState_def
  retrieve_def gradeDocuments_def rewriteQuery_def generate_def retrieveDocuments_def
  always_no_def routeAfterGrade_def at_last_def Let_def always_no_grade round_small

text \<open>A run on a new thread that starts with \<open>retryCount\<close> at -6 and finds no relevant
  document needs 27 steps, and the default recursion limit stops it.\<close>

lemma rag_recursion_limit_reached:
  "invoke_rag always_no default_recursionLimit default_RAGState
     [W_query ''q'', W_retryCount (Finite (- 6))] = Inl GraphRecursionError"
  by (simp add: run_eval END_def del: run_rag.simps(2))

text \<open>The theorem on a new thread at the input \<^verbatim>\<open>{ query: "q" }\<close>, with a model that
  grades every document as not relevant: the run starts with \<open>retryCount\<close> at 0, where
  \<open>routeAfterGrade\<close> says \<open>rewrite\<close> and \<open>rewriteQuery\<close> raises \<open>retryCount\<close>, and it ends
  after two passes through \<open>rewrite\<close>.\<close>

theorem rag_rewrite_loop_bounded_witness:
  "js_ge (retryCount default_RAGState) (Finite 0)
   \<and> js_lt (retryCount default_RAGState) (Finite 2)
   \<and> documents default_RAGState = []
   \<and> routeAfterGrade default_RAGState = ''rewrite''
   \<and> js_lt (retryCount default_RAGState)
        (retryCount (apply_update default_RAGState (fst (rewriteQuery always_no 0 default_RAGState))))
   \<and> js_ge (retryCount (apply_update default_RAGState [W_query ''q''])) (Finite 0)
   \<and> invoke_rag always_no default_recursionLimit default_RAGState [W_query ''q''] =
     Inr (\<lparr>messages = [AIMessage ''No.'' (Some [])], query = ''No.'', documents = [],
            generation = ''No.'', retryCount = Finite 2\<rparr>,
          [''retrieve'', ''grade'', ''rewrite'', ''retrieve'', ''grade'', ''rewrite'',
           ''retrieve'', ''grade'', ''generate''])
   \<and> count_list [''retrieve'', ''grade'', ''rewrite'', ''retrieve'', ''grade'', ''rewrite'',
        ''retrieve'', ''grade'', ''generate''] ''rewrite'' \<le> 2"
proof -
  let ?r = "(\<lparr>messages = [AIMessage ''No.'' (Some [])], query = ''No.'', documents = [],
            generation = ''No.'', retryCount = Finite 2\<rparr>,
          [''retrieve'', ''grade'', ''rewrite'', ''retrieve'', ''grade'', ''rewrite'',
           ''retrieve'', ''grade'', ''generate''])"
  have ge0: "js_ge (retryCount default_RAGState) (Finite 0)"
    and lt2: "js_lt (retryCount default_RAGState) (Finite 2)"
    and docs: "documents default_RAGState = []"
    by (simp_all add: default_RAGState_def)
  have start: "js_ge (retryCount (apply_update default_RAGState [W_query ''q''])) (Finite 0)"
    by (simp add: apply_update_def default_RAGState_def)
  have run: "invoke_rag always_no default_recursionLimit default_RAGState [W_query ''q''] = Inr ?r"
    by (simp add: run_eval del: run_rag.simps)
  note inst = rag_rewrite_loop_bounded [where s = default_RAGState and M = always_no and n = 0
      and thread = default_RAGState and input = "[W_query ''q'']"
      and recursionLimit = default_recursionLimit and r = ?r]
  from inst ge0 lt2 docs have route: "routeAfterGrade default_RAGState = ''rewrite''"
    by blast
  from inst ge0 lt2 have grows: "js_lt (retryCount default_RAGState)
        (retryCount (apply_update default_RAGState (fst (rewriteQuery always_no 0 default_RAGState))))"
    by blast
  from inst start run have "count_list (snd ?r) ''rewrite'' \<le> 2"
    by blast
  then have cnt: "count_list [''retrieve'', ''grade'', ''rewrite'', ''retrieve'', ''grade'',
      ''rewrite'', ''retrieve'', ''grade'', ''generate''] ''rewrite'' \<le> 2"
    by (simp only: snd_conv)
  from ge0 lt2 docs route grows start run cnt show ?thesis
    by (intro conjI)
qed

text \<open>
  The rewrite-to-retrieve cycle is not taken at most twice in every run: a run on a new
  thread that starts with \<open>retryCount\<close> at -1, from the input
  \<^verbatim>\<open>{ query: "q", retryCount: -1 }\<close>, and finds no relevant document passes through
  \<open>rewrite\<close> three times, in twelve steps, and ends.
\<close>

theorem rag_rewrite_taken_three_times:
  "invoke_rag always_no default_recursionLimit default_RAGState
     [W_query ''q'', W_retryCount (Finite (- 1))] =
     Inr (\<lparr>messages = [AIMessage ''No.'' (Some [])], query = ''No.'', documents = [],
            generation = ''No.'', retryCount = Finite 2\<rparr>,
          [''retrieve'', ''grade'', ''rewrite'', ''retrieve'', ''grade'', ''rewrite'',
           ''retrieve'', ''grade'', ''rewrite'', ''retrieve'', ''grade'', ''generate''])
   \<and> rewrite_passes
       (invoke_rag always_no default_recursionLimit default_RAGState
          [W_query ''q'', W_retryCount (Finite (- 1))]) = Some 3"
  by (simp add: run_eval rewrite_passes_def del: run_rag.simps)

section \<open>Properties of the skill's documents\<close>

text \<open>
  C6. The routing table maps intents to workflow files. Each of the intake options 1 to 6
  is assigned exactly one action, to read a markdown file under \<^verbatim>\<open>workflows/\<close>; every
  response that a row lists, the number and each of its words, is assigned that row's
  action and no other, so \<^verbatim>\<open>build\<close>, \<^verbatim>\<open>debug\<close> and \<^verbatim>\<open>optimize\<close> lead to the files of
  options 1, 4 and 6; and the one row without a file is that of option 7, which says to
  clarify.
\<close>

theorem routing_table_assigns_one_workflow:
  "map fst intake = [1, 2, 3, 4, 5, 6, 7]
   \<and> map (\<lambda>n. route (Number n)) [1, 2, 3, 4, 5, 6] =
       [[ReadWorkflow ''workflows/build-new-agent.md''],
        [ReadWorkflow ''workflows/add-feature.md''],
        [ReadWorkflow ''workflows/audit-agent.md''],
        [ReadWorkflow ''workflows/debug-agent.md''],
        [ReadWorkflow ''workflows/write-tests.md''],
        [ReadWorkflow ''workflows/optimize-agent.md'']]
   \<and> list_all is_workflow_file (concat (map (\<lambda>n. route (Number n)) [1, 2, 3, 4, 5, 6]))
   \<and> list_all (\<lambda>row. list_all (\<lambda>r. route r = [snd row]) (fst row)) routing
   \<and> route (Word ''build'') = [ReadWorkflow ''workflows/build-new-agent.md'']
   \<and> route (Word ''debug'') = [ReadWorkflow ''workflows/debug-agent.md'']
   \<and> route (Word ''optimize'') = [ReadWorkflow ''workflows/optimize-agent.md'']
   \<and> filter (\<lambda>row. \<not> is_workflow_file (snd row)) routing = [([Number 7, Other], Clarify)]
   \<and> route (Number 7) = [Clarify]"
  by code_simp

text \<open>
  C2. The repository holds six workflow runbooks, one for each category. Six of its
  documents open with a workflow heading; their categories are pairwise different and
  are the six categories; and the workflows index of SKILL.md lists one file for each
  category, in the order build, add-feature, audit, debug, test, optimize.
\<close>

theorem six_workflow_runbooks:
  "length workflow_documents = 6
   \<and> map (category_of_heading \<circ> first_line) workflow_documents =
       [Some Audit, Some AddFeature, Some Optimize, Some Build, Some Test, Some Debug]
   \<and> distinct (map (category_of_heading \<circ> first_line) workflow_documents)
   \<and> map (category_of_file \<circ> fst) workflows_index =
       [Some Build, Some AddFeature, Some Audit, Some Debug, Some Test, Some Optimize]
   \<and> set (map (category_of_heading \<circ> first_line) workflow_documents) =
       set (map (category_of_file \<circ> fst) workflows_index)"
  by code_simp

text \<open>
  C7, as the code has it. Each of the three template files is marked as a template in
  its header comment. The header of the basic agent also carries the instruction to copy
  the file and customize it; the headers of the RAG agent and of the multi-agent
  template do not.
\<close>

theorem template_headers:
  "marked_as_template basic_agent_header
   \<and> marked_as_template rag_agent_header
   \<and> marked_as_template multi_agent_header
   \<and> copy_and_customize basic_agent_header
   \<and> \<not> copy_and_customize rag_agent_header
   \<and> \<not> copy_and_customize multi_agent_header"
  by code_simp

text \<open>The header of the RAG template is not both: it has no line that says to copy or to
  customize.\<close>

theorem rag_header_without_instruction:
  "\<not> (marked_as_template rag_agent_header \<and> copy_and_customize rag_agent_header)
   \<and> \<not> mentions rag_agent_header ''copy''
   \<and> \<not> mentions rag_agent_header ''customize''"
  by code_simp

end
